theory Spec2Isabelle
  imports Complex_Main
begin

section \<open>Decimal amounts, calendar dates and errors\<close>

text \<open>
  Python \<open>Decimal\<close> values are modelled by the rational number they denote. Sums, differences
  and comparisons of two-decimal amounts are exact in Python as they are here; products,
  quotients and powers are exact here, whereas the decimal context of Python rounds them
  to 28 significant digits.
\<close>

type_synonym decimal = rat

text \<open>\<open>datetime.date\<close>: a civil date. \<open>datetime\<close>: a date and the seconds since midnight.\<close>

datatype date = Date (year: int) (month: nat) (day: nat)

type_synonym datetime = "date \<times> nat"

definition is_leap :: "int \<Rightarrow> bool" where
  "is_leap y = (y mod 4 = 0 \<and> (y mod 100 \<noteq> 0 \<or> y mod 400 = 0))"

definition days_in_month :: "int \<Rightarrow> nat \<Rightarrow> nat" where
  "days_in_month y m =
     (if m = 2 then (if is_leap y then 29 else 28)
      else if m = 4 \<or> m = 6 \<or> m = 9 \<or> m = 11 then 30 else 31)"

definition date_le :: "date \<Rightarrow> date \<Rightarrow> bool" where
  "date_le a b =
     (year a < year b \<or> (year a = year b \<and>
        (month a < month b \<or> (month a = month b \<and> day a \<le> day b))))"

definition date_lt :: "date \<Rightarrow> date \<Rightarrow> bool" where
  "date_lt a b = (date_le a b \<and> a \<noteq> b)"

definition datetime_le :: "datetime \<Rightarrow> datetime \<Rightarrow> bool" where
  "datetime_le a b = (date_lt (fst a) (fst b) \<or> (fst a = fst b \<and> snd a \<le> snd b))"

text \<open>\<open>d + timedelta(days=1)\<close>, and \<open>d + timedelta(days=n)\<close> by iteration.\<close>

definition succ_day :: "date \<Rightarrow> date" where
  "succ_day d =
     (if day d < days_in_month (year d) (month d) then Date (year d) (month d) (day d + 1)
      else if month d < 12 then Date (year d) (month d + 1) 1
      else Date (year d + 1) 1 1)"

definition add_days :: "nat \<Rightarrow> date \<Rightarrow> date" where
  "add_days n d = (succ_day ^^ n) d"

text \<open>
  \<open>d + relativedelta(months=k)\<close> and \<open>d + relativedelta(years=k)\<close> of dateutil: the month
  and year are moved, then the day is clamped to the length of the month reached.
\<close>

definition add_months :: "nat \<Rightarrow> date \<Rightarrow> date" where
  "add_months k d =
     (let t = (month d - 1) + k;
          y = year d + int (t div 12);
          m = t mod 12 + 1
      in Date y m (min (day d) (days_in_month y m)))"

definition add_years :: "nat \<Rightarrow> date \<Rightarrow> date" where
  "add_years k d =
     (let y = year d + int k in Date y (month d) (min (day d) (days_in_month y (month d))))"

text \<open>\<open>datetime.combine(d, datetime.min.time())\<close>: midnight of the day.\<close>

definition midnight :: "date \<Rightarrow> datetime" where
  "midnight d = (d, 0)"

text \<open>\<open>str(n)\<close> of a non-negative integer.\<close>

fun str_nat :: "nat \<Rightarrow> string" where
  "str_nat n =
     (if n < 10 then [char_of (48 + n)]
      else str_nat (n div 10) @ [char_of (48 + n mod 10)])"

declare str_nat.simps [simp del]

text \<open>
  Exceptions are values. The messages are the source's, transliterated to ASCII.
\<close>

datatype error =
    ValidationError string
  | ValueError string
  | IntegrityError
  | DatabaseError
  | DoesNotExist
  | ZeroDivisionError

section \<open>The ledger: accounts, categories, transactions\<close>

text \<open>
  The records carry the fields that the posting, scheduling and conversion code reads or
  writes. A primary key (a random UUID in the source) is a natural number drawn from the
  counter \<open>next_id\<close> of the store.
\<close>

record account_type =
  at_name :: string
  allows_negative_balance :: bool
  is_credit_account :: bool

record account =
  acc_id :: nat
  acc_user :: nat
  acc_type :: account_type
  acc_name :: string
  acc_currency :: string
  balance :: decimal

datatype txn_type = Income | Expense | Transfer

datatype origin = Manual | Card | AutoDebitOrigin | Installment | TransferOrigin | Import

record category =
  cat_id :: nat
  cat_user :: nat
  cat_name :: string
  cat_type :: txn_type
  cat_description :: string

record transaction =
  tx_id :: nat
  tx_user :: nat
  tx_account :: nat
  tx_category :: nat
  tx_target_account :: "nat option"
  tx_date :: datetime
  tx_amount :: decimal
  tx_currency :: string
  tx_type :: txn_type
  tx_description :: string
  tx_origin :: origin
  tx_reference_number :: string
  tx_metadata :: "(string \<times> string) list"
  tx_card_purchase :: "nat option"
  tx_auto_debit :: "nat option"
  tx_is_confirmed :: bool

datatype purchase_status = PurchaseActive | PurchaseCompleted | PurchaseCancelled

record card_purchase =
  cp_id :: nat
  cp_user :: nat
  cp_account :: nat
  cp_original_transaction :: nat
  cp_total_amount :: decimal
  cp_currency :: string
  cp_total_installments :: int
  cp_installment_amount :: decimal
  cp_interest_rate :: decimal
  cp_total_with_interest :: decimal
  cp_first_installment_date :: date
  cp_purchase_date :: date
  cp_current_installment :: int
  cp_status :: purchase_status
  cp_description :: string

datatype frequency = Daily | Weekly | Biweekly | Monthly | Quarterly | Yearly | OtherFrequency

datatype debit_status = Active | Paused | Cancelled

record auto_debit =
  ad_id :: nat
  ad_user :: nat
  ad_account :: nat
  ad_category :: nat
  ad_name :: string
  ad_amount :: decimal
  ad_currency :: string
  ad_frequency :: frequency
  ad_start_date :: date
  ad_end_date :: "date option"
  ad_next_execution :: date
  ad_last_execution :: "date option"
  ad_status :: debit_status
  ad_execution_count :: int
  ad_failed_attempts :: int
  ad_day_of_month :: "int option"

text \<open>The database. The tables keep insertion order; accounts are looked up by key.\<close>

record ledger =
  accounts :: "nat \<rightharpoonup> account"
  categories :: "category list"
  transactions :: "transaction list"
  card_purchases :: "card_purchase list"
  auto_debits :: "auto_debit list"
  next_id :: nat

text \<open>
  A model instance in memory: the row, and the related account objects it holds. The
  account objects are snapshots: they carry the balance read when they were loaded, and
  \<open>save(update_fields=['balance'])\<close> writes that field of the snapshot to the row.
\<close>

record txn_obj =
  o_row :: transaction
  o_account :: account
  o_target_account :: "account option"

text \<open>The validated data of \<open>TransactionSerializer\<close>: related objects are loaded instances.\<close>

record txn_data =
  d_account :: account
  d_category :: category
  d_target_account :: "account option"
  d_date :: datetime
  d_amount :: decimal
  d_currency :: string
  d_type :: txn_type
  d_description :: string
  d_origin :: origin
  d_reference_number :: string
  d_metadata :: "(string \<times> string) list"
  d_is_confirmed :: bool

subsection \<open>Store primitives\<close>

text \<open>\<open>account.save(update_fields=['balance'])\<close>: fails when the row is gone.\<close>

definition save_balance :: "account \<Rightarrow> ledger \<Rightarrow> error + ledger" where
  "save_balance a db =
     (case accounts db (acc_id a) of
        None \<Rightarrow> Inl DatabaseError
      | Some r \<Rightarrow> Inr (db\<lparr>accounts := (accounts db)(acc_id a \<mapsto> r\<lparr>balance := balance a\<rparr>)\<rparr>))"

text \<open>\<open>Transaction.objects.create(...)\<close>: the row gets a fresh key and is appended.\<close>

definition insert_transaction :: "transaction \<Rightarrow> ledger \<Rightarrow> transaction \<times> ledger" where
  "insert_transaction r db =
     (let r' = r\<lparr>tx_id := next_id db\<rparr>
      in (r', db\<lparr>transactions := transactions db @ [r'], next_id := next_id db + 1\<rparr>))"

definition insert_category :: "category \<Rightarrow> ledger \<Rightarrow> category \<times> ledger" where
  "insert_category c db =
     (let c' = c\<lparr>cat_id := next_id db\<rparr>
      in (c', db\<lparr>categories := categories db @ [c'], next_id := next_id db + 1\<rparr>))"

text \<open>
  \<open>Category.objects.get(user, name, transaction_type)\<close> falling back to \<open>create\<close>, and
  \<open>get_or_create\<close> with the same three keys. The table has the unique constraint
  \<open>unique_category_per_user_type\<close> on these keys, so the first match is the only one.
\<close>

definition get_or_create_category ::
  "nat \<Rightarrow> string \<Rightarrow> txn_type \<Rightarrow> string \<Rightarrow> ledger \<Rightarrow> category \<times> ledger" where
  "get_or_create_category u name ty descr db =
     (case find (\<lambda>c. cat_user c = u \<and> cat_name c = name \<and> cat_type c = ty) (categories db) of
        Some c \<Rightarrow> (c, db)
      | None \<Rightarrow>
          insert_category
            \<lparr>cat_id = 0, cat_user = u, cat_name = name, cat_type = ty, cat_description = descr\<rparr> db)"

section \<open>TransactionSerializer\<close>

text \<open>The value of \<open>transaction_type\<close> as the source writes it.\<close>

fun type_name :: "txn_type \<Rightarrow> string" where
  "type_name Income = ''income''"
| "type_name Expense = ''expense''"
| "type_name Transfer = ''transfer''"

text \<open>\<open>validate\<close>: the cross-field checks; \<open>request_user\<close> is the profile of the caller.\<close>

definition transaction_validate :: "nat \<Rightarrow> txn_data \<Rightarrow> error + txn_data" where
  "transaction_validate request_user data =
     (if acc_user (d_account data) \<noteq> request_user
        then Inl (ValidationError ''La cuenta debe pertenecerte'')
      else if cat_user (d_category data) \<noteq> request_user
        then Inl (ValidationError ''La categoria debe pertenecerte'')
      else if d_type data = Transfer \<and> d_target_account data = None
        then Inl (ValidationError ''Las transferencias requieren una cuenta destino'')
      else if d_type data = Transfer
              \<and> (case d_target_account data of
                     None \<Rightarrow> False | Some t \<Rightarrow> acc_user t \<noteq> request_user)
        then Inl (ValidationError ''La cuenta destino debe pertenecerte'')
      else if d_type data = Transfer
              \<and> (case d_target_account data of
                     None \<Rightarrow> False | Some t \<Rightarrow> acc_id t = acc_id (d_account data))
        then Inl (ValidationError ''No se puede transferir a la misma cuenta'')
      else if (d_type data = Income \<or> d_type data = Expense)
              \<and> cat_type (d_category data) \<noteq> d_type data
        then Inl (ValidationError (''La categoria debe ser de tipo '' @ type_name (d_type data)))
      else Inr data)"

datatype balance_op = Add | Subtract

definition update_account_balance ::
  "txn_obj \<Rightarrow> balance_op \<Rightarrow> ledger \<Rightarrow> error + (txn_obj \<times> ledger)" where
  "update_account_balance obj operation db =
     (let account = o_account obj;
          amount = tx_amount (o_row obj);
          ty = tx_type (o_row obj);
          b = (case operation of
                 Add \<Rightarrow>
                   (if ty = Income then balance account + amount
                    else if ty = Expense \<or> ty = Transfer then balance account - amount
                    else balance account)
               | Subtract \<Rightarrow>
                   (if ty = Income then balance account - amount
                    else if ty = Expense \<or> ty = Transfer then balance account + amount
                    else balance account));
          account' = account\<lparr>balance := b\<rparr>
      in case save_balance account' db of
           Inl e \<Rightarrow> Inl e
         | Inr db' \<Rightarrow> Inr (obj\<lparr>o_account := account'\<rparr>, db'))"

definition create_transfer_counterpart :: "txn_obj \<Rightarrow> ledger \<Rightarrow> error + (txn_obj \<times> ledger)" where
  "create_transfer_counterpart obj db =
     (let r = o_row obj;
          (transfer_category, db1) =
             get_or_create_category (tx_user r) ''Transferencia'' Income
               ''Transferencias entre cuentas'' db
      in case o_target_account obj of
           None \<Rightarrow> Inl IntegrityError
         | Some target \<Rightarrow>
             (let (mirror, db2) =
                    insert_transaction
                      \<lparr>tx_id = 0, tx_user = tx_user r, tx_account = acc_id target,
                       tx_category = cat_id transfer_category, tx_target_account = None,
                       tx_date = tx_date r, tx_amount = tx_amount r,
                       tx_currency = tx_currency r, tx_type = Income,
                       tx_description = ''Transferencia desde '' @ acc_name (o_account obj),
                       tx_origin = TransferOrigin,
                       tx_reference_number = tx_reference_number r,
                       tx_metadata = [(''transfer_source'', str_nat (tx_id r))],
                       tx_card_purchase = None, tx_auto_debit = None,
                       tx_is_confirmed = True\<rparr> db1;
                  target' = target\<lparr>balance := balance target + tx_amount r\<rparr>
              in case save_balance target' db2 of
                   Inl e \<Rightarrow> Inl e
                 | Inr db3 \<Rightarrow> Inr (obj\<lparr>o_target_account := Some target'\<rparr>, db3)))"

text \<open>\<open>ModelSerializer.create\<close>: \<open>Transaction.objects.create(**validated_data)\<close>.\<close>

definition model_create :: "nat \<Rightarrow> txn_data \<Rightarrow> ledger \<Rightarrow> txn_obj \<times> ledger" where
  "model_create request_user data db =
     (let (r, db') =
            insert_transaction
              \<lparr>tx_id = 0, tx_user = request_user, tx_account = acc_id (d_account data),
               tx_category = cat_id (d_category data),
               tx_target_account = map_option acc_id (d_target_account data),
               tx_date = d_date data, tx_amount = d_amount data,
               tx_currency = d_currency data, tx_type = d_type data,
               tx_description = d_description data, tx_origin = d_origin data,
               tx_reference_number = d_reference_number data,
               tx_metadata = d_metadata data,
               tx_card_purchase = None, tx_auto_debit = None,
               tx_is_confirmed = d_is_confirmed data\<rparr> db
      in (\<lparr>o_row = r, o_account = d_account data,
           o_target_account = d_target_account data\<rparr>, db'))"

text \<open>
  \<open>TransactionSerializer.create\<close> and \<open>update\<close> run under \<open>transaction.atomic\<close>: an
  exception rolls every write back, so the error result carries no store and the caller
  keeps the one it had.
\<close>

definition transaction_create :: "nat \<Rightarrow> txn_data \<Rightarrow> ledger \<Rightarrow> error + (txn_obj \<times> ledger)" where
  "transaction_create request_user validated_data db =
     (let (transaction_obj, db1) = model_create request_user validated_data db
      in case update_account_balance transaction_obj Add db1 of
           Inl e \<Rightarrow> Inl e
         | Inr (obj2, db2) \<Rightarrow>
             (if tx_type (o_row obj2) = Transfer
              then create_transfer_counterpart obj2 db2
              else Inr (obj2, db2)))"



text \<open>
  \<open>get_object\<close> of a view set over the caller's rows with \<open>select_related\<close>: the row and
  its account objects as stored now.
\<close>

definition get_object :: "nat \<Rightarrow> nat \<Rightarrow> ledger \<Rightarrow> error + txn_obj" where
  "get_object request_user pk db =
     (case find (\<lambda>r. tx_user r = request_user \<and> tx_id r = pk) (transactions db) of
        None \<Rightarrow> Inl DoesNotExist
      | Some r \<Rightarrow>
          (case accounts db (tx_account r) of
             None \<Rightarrow> Inl DoesNotExist
           | Some a \<Rightarrow>
               Inr \<lparr>o_row = r, o_account = a,
                    o_target_account =
                      (case tx_target_account r of None \<Rightarrow> None | Some t \<Rightarrow> accounts db t)\<rparr>))"

text \<open>\<open>TransactionViewSet.confirm\<close>: sets the flag and saves that field.\<close>

definition save_is_confirmed :: "transaction \<Rightarrow> ledger \<Rightarrow> ledger" where
  "save_is_confirmed r db =
     db\<lparr>transactions :=
          map (\<lambda>x. if tx_id x = tx_id r then x\<lparr>tx_is_confirmed := tx_is_confirmed r\<rparr> else x)
            (transactions db)\<rparr>"

definition confirm :: "nat \<Rightarrow> nat \<Rightarrow> ledger \<Rightarrow> error + (transaction \<times> ledger)" where
  "confirm request_user pk db =
     (case get_object request_user pk db of
        Inl e \<Rightarrow> Inl e
      | Inr obj \<Rightarrow>
          (let r = (o_row obj)\<lparr>tx_is_confirmed := True\<rparr>
           in Inr (r, save_is_confirmed r db)))"

text \<open>\<open>Account.clean\<close>: the model's own check of the balance against the account type.\<close>

definition clean :: "account \<Rightarrow> error + unit" where
  "clean a =
     (if balance a < 0 \<and> \<not> allows_negative_balance (acc_type a)
      then Inl (ValidationError
                  (''El tipo de cuenta '' @ at_name (acc_type a)
                     @ '' no permite balance negativo''))
      else Inr ())"

section \<open>AutoDebit and TransactionService\<close>

text \<open>\<open>d.replace(day=v)\<close>: raises when the month has no such day.\<close>

definition replace_day :: "int \<Rightarrow> date \<Rightarrow> error + date" where
  "replace_day v d =
     (if 1 \<le> v \<and> v \<le> int (days_in_month (year d) (month d))
      then Inr (Date (year d) (month d) (nat v))
      else Inl (ValueError ''day is out of range for month''))"

definition calculate_next_execution :: "auto_debit \<Rightarrow> error + date" where
  "calculate_next_execution ad =
     (case ad_last_execution ad of
        None \<Rightarrow> Inr (ad_start_date ad)
      | Some last_execution \<Rightarrow>
          (case ad_frequency ad of
             Daily \<Rightarrow> Inr (add_days 1 last_execution)
           | Weekly \<Rightarrow> Inr (add_days 7 last_execution)
           | Biweekly \<Rightarrow> Inr (add_days 14 last_execution)
           | Monthly \<Rightarrow>
               (let next_date = add_months 1 last_execution
                in case ad_day_of_month ad of
                     None \<Rightarrow> Inr next_date
                   | Some dm \<Rightarrow>
                       if dm = 0 then Inr next_date else replace_day (min dm 28) next_date)
           | Quarterly \<Rightarrow> Inr (add_months 3 last_execution)
           | Yearly \<Rightarrow> Inr (add_years 1 last_execution)
           | OtherFrequency \<Rightarrow> Inr last_execution))"

definition can_execute :: "date \<Rightarrow> auto_debit \<Rightarrow> bool" where
  "can_execute today ad =
     (ad_status ad = Active \<and> date_le (ad_next_execution ad) today \<and>
      (case ad_end_date ad of None \<Rightarrow> True | Some e \<Rightarrow> date_le today e))"

text \<open>
  \<open>auto_debit.save(update_fields=[...])\<close>: the named fields of the instance are written to
  its row. The instance comes from a query over the table, so the row is there.
\<close>

definition save_failed_attempts :: "auto_debit \<Rightarrow> ledger \<Rightarrow> ledger" where
  "save_failed_attempts ad db =
     db\<lparr>auto_debits :=
          map (\<lambda>r. if ad_id r = ad_id ad
                    then r\<lparr>ad_failed_attempts := ad_failed_attempts ad\<rparr> else r)
            (auto_debits db)\<rparr>"

definition save_execution :: "auto_debit \<Rightarrow> ledger \<Rightarrow> ledger" where
  "save_execution ad db =
     db\<lparr>auto_debits :=
          map (\<lambda>r. if ad_id r = ad_id ad
                    then r\<lparr>ad_last_execution := ad_last_execution ad,
                           ad_execution_count := ad_execution_count ad,
                           ad_failed_attempts := ad_failed_attempts ad,
                           ad_next_execution := ad_next_execution ad\<rparr>
                    else r)
            (auto_debits db)\<rparr>"

text \<open>
  The \<open>try\<close> block of \<open>execute_auto_debit\<close>. The result carries the instance as mutated in
  memory and the store as written so far, on the exception path too.
\<close>

definition execute_try ::
  "datetime \<Rightarrow> auto_debit \<Rightarrow> ledger \<Rightarrow> (error + transaction) \<times> auto_debit \<times> ledger" where
  "execute_try now ad db =
     (case accounts db (ad_account ad) of
        None \<Rightarrow> (Inl DoesNotExist, ad, db)
      | Some account \<Rightarrow>
          if balance account < ad_amount ad \<and> \<not> allows_negative_balance (acc_type account)
          then (let ad1 = ad\<lparr>ad_failed_attempts := ad_failed_attempts ad + 1\<rparr>
                in (Inl (ValueError ''Saldo insuficiente para ejecutar el debito''),
                    ad1, save_failed_attempts ad1 db))
          else
            (let (transaction_obj, db1) =
                   insert_transaction
                     \<lparr>tx_id = 0, tx_user = ad_user ad, tx_account = ad_account ad,
                      tx_category = ad_category ad, tx_target_account = None,
                      tx_date = now, tx_amount = ad_amount ad,
                      tx_currency = ad_currency ad, tx_type = Expense,
                      tx_description = ''Debito automatico: '' @ ad_name ad,
                      tx_origin = AutoDebitOrigin, tx_reference_number = [],
                      tx_metadata = [], tx_card_purchase = None,
                      tx_auto_debit = Some (ad_id ad), tx_is_confirmed = True\<rparr> db
             in case save_balance (account\<lparr>balance := balance account - ad_amount ad\<rparr>) db1 of
                  Inl e \<Rightarrow> (Inl e, ad, db1)
                | Inr db2 \<Rightarrow>
                    (let ad1 = ad\<lparr>ad_last_execution := Some (fst now),
                                  ad_execution_count := ad_execution_count ad + 1,
                                  ad_failed_attempts := 0\<rparr>
                     in case calculate_next_execution ad1 of
                          Inl e \<Rightarrow> (Inl e, ad1, db2)
                        | Inr nx \<Rightarrow>
                            (let ad2 = ad1\<lparr>ad_next_execution := nx\<rparr>
                             in (Inr transaction_obj, ad2, save_execution ad2 db2)))))"

text \<open>
  The body of \<open>execute_auto_debit\<close>: the guard, which raises before the \<open>try\<close>, then the
  \<open>try\<close> block with its \<open>except Exception\<close> handler, which counts a failed attempt, saves
  it and raises again.
\<close>

definition execute_auto_debit_body ::
  "datetime \<Rightarrow> auto_debit \<Rightarrow> ledger \<Rightarrow> (error + transaction) \<times> auto_debit \<times> ledger" where
  "execute_auto_debit_body now ad db =
     (if \<not> can_execute (fst now) ad
      then (Inl (ValueError ''El debito no puede ejecutarse''), ad, db)
      else case execute_try now ad db of
             (Inr t, ad', db') \<Rightarrow> (Inr t, ad', db')
           | (Inl e, ad', db') \<Rightarrow>
               (let ad'' = ad'\<lparr>ad_failed_attempts := ad_failed_attempts ad' + 1\<rparr>
                in (Inl e, ad'', save_failed_attempts ad'' db')))"

text \<open>
  \<open>@transaction.atomic\<close>: when the body raises, the writes it made to the database are
  rolled back; what it did to objects in memory stays.
\<close>

definition atomic ::
  "('s \<Rightarrow> (error + 'a) \<times> 'm \<times> 's) \<Rightarrow> 's \<Rightarrow> (error + 'a) \<times> 'm \<times> 's" where
  "atomic body db =
     (case body db of
        (Inl e, mem, _) \<Rightarrow> (Inl e, mem, db)
      | (Inr v, mem, db') \<Rightarrow> (Inr v, mem, db'))"

definition execute_auto_debit ::
  "datetime \<Rightarrow> auto_debit \<Rightarrow> ledger \<Rightarrow> (error + transaction) \<times> auto_debit \<times> ledger" where
  "execute_auto_debit now ad db = atomic (execute_auto_debit_body now ad) db"

text \<open>\<open>str(e)\<close> of an exception.\<close>

fun error_message :: "error \<Rightarrow> string" where
  "error_message (ValidationError m) = m"
| "error_message (ValueError m) = m"
| "error_message IntegrityError = ''IntegrityError''"
| "error_message DatabaseError = ''Save with update_fields did not affect any rows.''"
| "error_message DoesNotExist = ''matching query does not exist.''"
| "error_message ZeroDivisionError = ''division by zero''"

record results =
  executed :: int
  failed :: int
  errors :: "(string \<times> string) list"

definition pending_debits :: "date \<Rightarrow> ledger \<Rightarrow> auto_debit list" where
  "pending_debits today db =
     filter (\<lambda>a. ad_status a = Active \<and> date_le (ad_next_execution a) today) (auto_debits db)"

definition execute_one :: "datetime \<Rightarrow> results \<times> ledger \<Rightarrow> auto_debit \<Rightarrow> results \<times> ledger" where
  "execute_one now acc ad =
     (case execute_auto_debit now ad (snd acc) of
        (Inr _, _, db') \<Rightarrow> ((fst acc)\<lparr>executed := executed (fst acc) + 1\<rparr>, db')
      | (Inl e, _, db') \<Rightarrow>
          ((fst acc)\<lparr>failed := failed (fst acc) + 1,
                     errors := errors (fst acc) @ [(ad_name ad, error_message e)]\<rparr>, db'))"

definition execute_pending_debits :: "datetime \<Rightarrow> ledger \<Rightarrow> results \<times> ledger" where
  "execute_pending_debits now db =
     foldl (execute_one now) (\<lparr>executed = 0, failed = 0, errors = []\<rparr>, db)
       (pending_debits (fst now) db)"

section \<open>CardPurchaseSerializer\<close>












text \<open>
  \<open>process_installment_payment\<close>: the earliest unconfirmed installment of the purchase
  is confirmed and the counter of the purchase is set.
\<close>

fun earliest :: "transaction list \<Rightarrow> transaction option" where
  "earliest [] = None"
| "earliest (r # rs) =
     (case earliest rs of
        None \<Rightarrow> Some r
      | Some r' \<Rightarrow> if datetime_le (tx_date r) (tx_date r') then Some r else Some r')"

definition save_purchase_progress :: "card_purchase \<Rightarrow> ledger \<Rightarrow> ledger" where
  "save_purchase_progress cp db =
     db\<lparr>card_purchases :=
          map (\<lambda>r. if cp_id r = cp_id cp
                    then r\<lparr>cp_current_installment := cp_current_installment cp,
                           cp_status := cp_status cp\<rparr>
                    else r)
            (card_purchases db)\<rparr>"

definition process_installment_payment ::
  "card_purchase \<Rightarrow> int \<Rightarrow> ledger \<Rightarrow> error + (transaction \<times> card_purchase \<times> ledger)" where
  "process_installment_payment cp installment_number db =
     (if cp_status cp \<noteq> PurchaseActive then Inl (ValueError ''La compra no esta activa'')
      else if installment_number \<le> cp_current_installment cp
        then Inl (ValueError ''Esta cuota ya fue pagada'')
      else if installment_number > cp_total_installments cp
        then Inl (ValueError ''Numero de cuota invalido'')
      else
        (case earliest (filter (\<lambda>r. tx_card_purchase r = Some (cp_id cp)
                                    \<and> tx_origin r = Installment \<and> \<not> tx_is_confirmed r)
                          (transactions db)) of
           None \<Rightarrow> Inl (ValueError ''No hay cuotas pendientes'')
         | Some r \<Rightarrow>
             (let installment_transaction = r\<lparr>tx_is_confirmed := True\<rparr>;
                  db1 = save_is_confirmed installment_transaction db;
                  cp1 = cp\<lparr>cp_current_installment := installment_number\<rparr>;
                  cp2 = (if installment_number = cp_total_installments cp
                         then cp1\<lparr>cp_status := PurchaseCompleted\<rparr> else cp1)
              in Inr (installment_transaction, cp2, save_purchase_progress cp2 db1))))"

section \<open>CurrencyService\<close>

text \<open>
  In the currency service an instant is a number of seconds since the epoch, and the date
  of an instant is its day number. The cache of the framework is a list of keyed entries
  with the instant they expire at, the newest first.
\<close>

type_synonym timestamp = int

definition date_of :: "timestamp \<Rightarrow> int" where
  "date_of t = t div 86400"

record currency =
  cur_code :: string
  cur_name :: string
  cur_symbol :: string
  cur_decimal_places :: int
  cur_is_active :: bool
  cur_is_base :: bool

record exchange_rate =
  er_from_currency :: string
  er_to_currency :: string
  er_rate :: decimal
  er_date :: timestamp
  er_source :: string
  er_provider :: string

record conversion_log =
  cl_from_currency :: string
  cl_to_currency :: string
  cl_original_amount :: decimal
  cl_converted_amount :: decimal
  cl_exchange_rate :: decimal
  cl_source :: string
  cl_user_id :: string
  cl_context :: string

record rate_store =
  cache :: "(string \<times> decimal \<times> timestamp) list"
  exchange_rates :: "exchange_rate list"
  currencies :: "currency list"
  conversion_logs :: "conversion_log list"

text \<open>
  What one request to the provider comes to in \<open>_fetch_single_rate\<close>: a rate for the
  symbol, a well-formed answer without one, a \<open>requests.RequestException\<close> (caught there),
  or any other exception (caught by the caller).
\<close>

datatype api_reply = Rate decimal | NoRate | RequestFailed | Crashed

record service =
  svc_now :: timestamp
  svc_cache_ttl :: int
  svc_api_key :: string
  svc_api :: "string \<Rightarrow> string \<Rightarrow> api_reply"

text \<open>
  A rate passes a condition \<open>if rate:\<close> when it is neither \<open>None\<close> nor zero; \<open>nonzero r\<close> is
  the rate that passed, if it did.
\<close>

definition nonzero :: "decimal option \<Rightarrow> decimal option" where
  "nonzero r = (case r of None \<Rightarrow> None | Some x \<Rightarrow> if x = 0 then None else Some x)"

definition cache_key :: "string \<Rightarrow> string \<Rightarrow> string" where
  "cache_key from_currency to_currency =
     ''exchange_rate_'' @ from_currency @ ''_'' @ to_currency"

definition get_cached_rate :: "service \<Rightarrow> string \<Rightarrow> string \<Rightarrow> rate_store \<Rightarrow> decimal option" where
  "get_cached_rate svc from_currency to_currency st =
     (case map_of (cache st) (cache_key from_currency to_currency) of
        None \<Rightarrow> None
      | Some (rate, expires) \<Rightarrow> if svc_now svc < expires then Some rate else None)"

definition cache_rate :: "service \<Rightarrow> string \<Rightarrow> string \<Rightarrow> decimal \<Rightarrow> rate_store \<Rightarrow> rate_store" where
  "cache_rate svc from_currency to_currency rate st =
     st\<lparr>cache := (cache_key from_currency to_currency, rate, svc_now svc + svc_cache_ttl svc)
                    # cache st\<rparr>"

text \<open>\<open>.first()\<close> under the ordering \<open>-date\<close> of \<open>ExchangeRate\<close>: the row with the latest date.\<close>

fun latest :: "exchange_rate list \<Rightarrow> exchange_rate option" where
  "latest [] = None"
| "latest (r # rs) =
     (case latest rs of
        None \<Rightarrow> Some r
      | Some r' \<Rightarrow> if er_date r < er_date r' then Some r' else Some r)"

definition get_db_rate :: "service \<Rightarrow> string \<Rightarrow> string \<Rightarrow> rate_store \<Rightarrow> decimal option" where
  "get_db_rate svc from_currency to_currency st =
     (let cutoff_time = svc_now svc - 24 * 3600
      in case latest (filter (\<lambda>r. er_from_currency r = from_currency
                                  \<and> er_to_currency r = to_currency
                                  \<and> cutoff_time \<le> er_date r) (exchange_rates st)) of
           None \<Rightarrow> None
         | Some rate_obj \<Rightarrow> Some (er_rate rate_obj))"

definition fetch_single_rate :: "service \<Rightarrow> string \<Rightarrow> string \<Rightarrow> error + decimal option" where
  "fetch_single_rate svc from_currency to_currency =
     (case svc_api svc from_currency to_currency of
        Rate r \<Rightarrow> Inr (Some r)
      | NoRate \<Rightarrow> Inr None
      | RequestFailed \<Rightarrow> Inr None
      | Crashed \<Rightarrow> Inl (ValueError ''provider''))"

definition fetch_rate_from_api :: "service \<Rightarrow> string \<Rightarrow> string \<Rightarrow> decimal option" where
  "fetch_rate_from_api svc from_currency to_currency =
     (if svc_api_key svc = [] then None
      else
        (let direct = (case fetch_single_rate svc from_currency to_currency of
                         Inl e \<Rightarrow> None | Inr r \<Rightarrow> r)
         in if to_currency = ''ARS''
            then (case fetch_single_rate svc ''USD'' ''ARS'' of
                    Inl e \<Rightarrow> None
                  | Inr usd_to_ars \<Rightarrow>
                      (case fetch_single_rate svc from_currency ''USD'' of
                         Inl e \<Rightarrow> None
                       | Inr from_to_usd \<Rightarrow>
                           (case (nonzero usd_to_ars, nonzero from_to_usd) of
                              (Some u, Some f) \<Rightarrow> Some (f * u)
                            | _ \<Rightarrow> direct)))
            else direct))"

definition get_inverse_rate :: "string \<Rightarrow> string \<Rightarrow> rate_store \<Rightarrow> decimal option" where
  "get_inverse_rate from_currency to_currency st =
     (case latest (filter (\<lambda>r. er_from_currency r = to_currency
                               \<and> er_to_currency r = from_currency) (exchange_rates st)) of
        None \<Rightarrow> None
      | Some rate_obj \<Rightarrow> if er_rate rate_obj > 0 then Some (1 / er_rate rate_obj) else None)"

text \<open>\<open>Currency.objects.get_or_create(code=...)\<close>: a missing currency is created with the defaults.\<close>

definition get_or_create_currency :: "string \<Rightarrow> rate_store \<Rightarrow> rate_store" where
  "get_or_create_currency code st =
     (if \<exists>c \<in> set (currencies st). cur_code c = code then st
      else st\<lparr>currencies := currencies st @
                [\<lparr>cur_code = code, cur_name = [], cur_symbol = [], cur_decimal_places = 2,
                  cur_is_active = True, cur_is_base = False\<rparr>]\<rparr>)"

text \<open>
  \<open>_save_rate_to_db\<close>: \<open>update_or_create\<close> keyed by the pair and today's date updates the
  one row there is, creates it when there is none, and raises when there are several; the
  \<open>except\<close> clause swallows that, and the currencies created before stay.
\<close>

definition save_rate_to_db :: "service \<Rightarrow> string \<Rightarrow> string \<Rightarrow> decimal \<Rightarrow> rate_store \<Rightarrow> rate_store" where
  "save_rate_to_db svc from_currency to_currency rate st =
     (let st1 = get_or_create_currency to_currency (get_or_create_currency from_currency st);
          todays = (\<lambda>r. er_from_currency r = from_currency \<and> er_to_currency r = to_currency
                        \<and> date_of (er_date r) = date_of (svc_now svc));
          n = length (filter todays (exchange_rates st1))
      in if n = 0
         then st1\<lparr>exchange_rates := exchange_rates st1 @
                    [\<lparr>er_from_currency = from_currency, er_to_currency = to_currency,
                      er_rate = rate, er_date = svc_now svc, er_source = ''api'',
                      er_provider = ''exchangeratesapi''\<rparr>]\<rparr>
         else if n = 1
         then st1\<lparr>exchange_rates :=
                    map (\<lambda>r. if todays r
                              then r\<lparr>er_rate := rate, er_source := ''api'',
                                     er_provider := ''exchangeratesapi''\<rparr>
                              else r) (exchange_rates st1)\<rparr>
         else st1)"

definition get_exchange_rate ::
  "service \<Rightarrow> string \<Rightarrow> string \<Rightarrow> rate_store \<Rightarrow> decimal option \<times> rate_store" where
  "get_exchange_rate svc from_currency to_currency st =
     (if from_currency = to_currency then (Some 1, st)
      else
        (case nonzero (get_cached_rate svc from_currency to_currency st) of
           Some cached_rate \<Rightarrow> (Some cached_rate, st)
         | None \<Rightarrow>
             (case nonzero (get_db_rate svc from_currency to_currency st) of
                Some db_rate \<Rightarrow>
                  (Some db_rate, cache_rate svc from_currency to_currency db_rate st)
              | None \<Rightarrow>
                  (case nonzero (fetch_rate_from_api svc from_currency to_currency) of
                     Some api_rate \<Rightarrow>
                       (Some api_rate,
                        cache_rate svc from_currency to_currency api_rate
                          (save_rate_to_db svc from_currency to_currency api_rate st))
                   | None \<Rightarrow>
                       (case nonzero (get_inverse_rate from_currency to_currency st) of
                          Some inverse_rate \<Rightarrow> (Some inverse_rate, st)
                        | None \<Rightarrow> (None, st))))))"

definition get_currency_decimal_places :: "string \<Rightarrow> rate_store \<Rightarrow> int" where
  "get_currency_decimal_places currency_code st =
     (case find (\<lambda>c. cur_code c = currency_code) (currencies st) of
        Some c \<Rightarrow> cur_decimal_places c
      | None \<Rightarrow> 2)"

text \<open>
  \<open>x.quantize(Decimal('0.' + '0' * decimal_places), rounding=ROUND_HALF_UP)\<close>: the
  exponent of the pattern is \<open>- decimal_places\<close>, or 0 when that is negative; ties go away
  from zero.
\<close>

definition quantize_half_up :: "decimal \<Rightarrow> int \<Rightarrow> decimal" where
  "quantize_half_up x decimal_places =
     (let q = 10 ^ nat decimal_places
      in sgn x * of_int \<lfloor>\<bar>x\<bar> * q + 1 / 2\<rfloor> / q)"

text \<open>\<open>_log_conversion\<close>: one row appended to the conversion log.\<close>

definition log_conversion ::
  "string \<Rightarrow> string \<Rightarrow> decimal \<Rightarrow> decimal \<Rightarrow> decimal \<Rightarrow> string \<Rightarrow> string option
     \<Rightarrow> rate_store \<Rightarrow> rate_store" where
  "log_conversion from_currency to_currency original_amount converted_amount exchange_rate
       context user_id st =
     st\<lparr>conversion_logs := conversion_logs st @
          [\<lparr>cl_from_currency = from_currency, cl_to_currency = to_currency,
            cl_original_amount = original_amount, cl_converted_amount = converted_amount,
            cl_exchange_rate = exchange_rate, cl_source = ''api'',
            cl_user_id = (case user_id of None \<Rightarrow> [] | Some u \<Rightarrow> u),
            cl_context = context\<rparr>]\<rparr>"

definition convert_amount ::
  "service \<Rightarrow> decimal \<Rightarrow> string \<Rightarrow> string \<Rightarrow> string \<Rightarrow> string option \<Rightarrow> rate_store
     \<Rightarrow> (error + decimal) \<times> rate_store" where
  "convert_amount svc amount from_currency to_currency context user_id st =
     (if from_currency = to_currency then (Inr amount, st)
      else
        (let (rate, st1) = get_exchange_rate svc from_currency to_currency st
         in case nonzero rate of
              None \<Rightarrow> (Inl (ValueError ''No se pudo obtener la tasa de cambio''), st1)
            | Some r \<Rightarrow>
                (let converted_amount =
                       quantize_half_up (amount * r)
                         (get_currency_decimal_places to_currency st1)
                 in (Inr converted_amount,
                     log_conversion from_currency to_currency amount converted_amount
                       r context user_id st1))))"

section \<open>Sample data\<close>

text \<open>
  The fixtures of the test suite (a bank account type that forbids a negative balance, a
  credit card type that allows it, an account of 10000.00 ARS, the rate 850 from USD to
  ARS), completed with what the examples below need.
\<close>

definition bank_type :: account_type where
  "bank_type = \<lparr>at_name = ''Cuenta Bancaria'', allows_negative_balance = False,
                 is_credit_account = False\<rparr>"

definition credit_type :: account_type where
  "credit_type = \<lparr>at_name = ''Tarjeta de Credito'', allows_negative_balance = True,
                   is_credit_account = True\<rparr>"

definition test_account :: account where
  "test_account = \<lparr>acc_id = 10, acc_user = 1, acc_type = bank_type,
                    acc_name = ''Cuenta Test'', acc_currency = ''ARS'', balance = 10000\<rparr>"

definition savings_account :: account where
  "savings_account = \<lparr>acc_id = 11, acc_user = 1, acc_type = bank_type,
                       acc_name = ''Ahorros'', acc_currency = ''ARS'', balance = 500\<rparr>"

definition card_account :: account where
  "card_account = \<lparr>acc_id = 12, acc_user = 1, acc_type = credit_type,
                    acc_name = ''Visa'', acc_currency = ''ARS'', balance = 0\<rparr>"

definition income_cat :: category where
  "income_cat = \<lparr>cat_id = 20, cat_user = 1, cat_name = ''Sueldo'', cat_type = Income,
                  cat_description = []\<rparr>"

definition expense_cat :: category where
  "expense_cat = \<lparr>cat_id = 21, cat_user = 1, cat_name = ''Alimentacion'', cat_type = Expense,
                   cat_description = []\<rparr>"

definition test_ledger :: ledger where
  "test_ledger =
     \<lparr>accounts = [10 \<mapsto> test_account, 11 \<mapsto> savings_account, 12 \<mapsto> card_account],
      categories = [income_cat, expense_cat], transactions = [], card_purchases = [],
      auto_debits = [], next_id = 100\<rparr>"

definition noon :: datetime where
  "noon = (Date 2024 3 15, 43200)"


text \<open>An expense of 650 on the savings account, which holds 500.\<close>

definition expense_650 :: txn_data where
  "expense_650 =
     \<lparr>d_account = savings_account, d_category = expense_cat,
      d_target_account = None, d_date = noon, d_amount = 650,
      d_currency = ''ARS'', d_type = Expense, d_description = ''Compra'',
      d_origin = Manual, d_reference_number = [], d_metadata = [],
      d_is_confirmed = True\<rparr>"

text \<open>An expense of 200 on the savings account, submitted as not confirmed.\<close>

definition pending_expense_200 :: txn_data where
  "pending_expense_200 =
     \<lparr>d_account = savings_account, d_category = expense_cat,
      d_target_account = None, d_date = noon, d_amount = 200,
      d_currency = ''ARS'', d_type = Expense, d_description = ''Reserva'',
      d_origin = Manual, d_reference_number = [], d_metadata = [],
      d_is_confirmed = False\<rparr>"

text \<open>
  A card purchase of 1200 in 12 installments on the card account, with its first
  installment of 100 still unconfirmed in the table.
\<close>

definition sample_purchase :: card_purchase where
  "sample_purchase =
     \<lparr>cp_id = 40, cp_user = 1, cp_account = 12, cp_original_transaction = 49,
      cp_total_amount = 1200, cp_currency = ''ARS'', cp_total_installments = 12,
      cp_installment_amount = 100, cp_interest_rate = 0, cp_total_with_interest = 1200,
      cp_first_installment_date = Date 2024 4 10, cp_purchase_date = Date 2024 3 10,
      cp_current_installment = 0, cp_status = PurchaseActive, cp_description = ''Notebook''\<rparr>"

definition pending_installment :: transaction where
  "pending_installment =
     \<lparr>tx_id = 50, tx_user = 1, tx_account = 12, tx_category = 21,
      tx_target_account = None, tx_date = midnight (Date 2024 4 10), tx_amount = 100,
      tx_currency = ''ARS'', tx_type = Expense, tx_description = ''Cuota 1/12 - Notebook'',
      tx_origin = Installment, tx_reference_number = [], tx_metadata = [],
      tx_card_purchase = Some 40, tx_auto_debit = None, tx_is_confirmed = False\<rparr>"

definition installment_ledger :: ledger where
  "installment_ledger =
     test_ledger\<lparr>transactions := [pending_installment], card_purchases := [sample_purchase]\<rparr>"



text \<open>
  Auto-debits due on 2024-03-15: a rent of 1000 on the savings account, which holds 500;
  a subscription of 200 on the test account; an insurance whose end date has passed.
\<close>

definition rent_debit :: auto_debit where
  "rent_debit =
     \<lparr>ad_id = 30, ad_user = 1, ad_account = 11, ad_category = 21, ad_name = ''Alquiler'',
      ad_amount = 1000, ad_currency = ''ARS'', ad_frequency = Monthly,
      ad_start_date = Date 2024 1 15, ad_end_date = None,
      ad_next_execution = Date 2024 3 15, ad_last_execution = Some (Date 2024 2 15),
      ad_status = Active, ad_execution_count = 2, ad_failed_attempts = 0,
      ad_day_of_month = None\<rparr>"

definition gym_debit :: auto_debit where
  "gym_debit =
     \<lparr>ad_id = 31, ad_user = 1, ad_account = 10, ad_category = 21, ad_name = ''Gimnasio'',
      ad_amount = 200, ad_currency = ''ARS'', ad_frequency = Monthly,
      ad_start_date = Date 2024 1 31, ad_end_date = None,
      ad_next_execution = Date 2024 3 15, ad_last_execution = Some (Date 2024 2 15),
      ad_status = Active, ad_execution_count = 2, ad_failed_attempts = 3,
      ad_day_of_month = None\<rparr>"

definition expired_debit :: auto_debit where
  "expired_debit =
     \<lparr>ad_id = 32, ad_user = 1, ad_account = 10, ad_category = 21, ad_name = ''Seguro'',
      ad_amount = 50, ad_currency = ''ARS'', ad_frequency = Monthly,
      ad_start_date = Date 2023 6 1, ad_end_date = Some (Date 2024 2 28),
      ad_next_execution = Date 2024 3 1, ad_last_execution = Some (Date 2024 2 1),
      ad_status = Active, ad_execution_count = 9, ad_failed_attempts = 0,
      ad_day_of_month = None\<rparr>"

definition debit_ledger :: ledger where
  "debit_ledger = test_ledger\<lparr>auto_debits := [rent_debit, gym_debit]\<rparr>"

definition expired_ledger :: ledger where
  "expired_ledger = test_ledger\<lparr>auto_debits := [expired_debit]\<rparr>"


text \<open>
  Currency fixtures: ARS and USD with two decimals; a provider that is down, and the mock
  of the test suite, which answers every request with the rate 850 for ARS; stores with a
  cached rate, with the two persisted rates of the fixtures dated an hour ago, with the
  rate from ARS to USD only, and with no rate at all.
\<close>

definition ars :: currency where
  "ars = \<lparr>cur_code = ''ARS'', cur_name = ''Peso Argentino'', cur_symbol = ''$'',
           cur_decimal_places = 2, cur_is_active = True, cur_is_base = True\<rparr>"

definition usd :: currency where
  "usd = \<lparr>cur_code = ''USD'', cur_name = ''Dolar'', cur_symbol = ''US$'',
           cur_decimal_places = 2, cur_is_active = True, cur_is_base = False\<rparr>"

definition svc_down :: service where
  "svc_down = \<lparr>svc_now = 1710504000, svc_cache_ttl = 900, svc_api_key = ''test-key'',
                svc_api = (\<lambda>f t. RequestFailed)\<rparr>"




definition store_empty :: rate_store where
  "store_empty = \<lparr>cache = [], exchange_rates = [], currencies = [ars, usd],
                   conversion_logs = []\<rparr>"




section \<open>Posting through TransactionSerializer\<close>




section \<open>Confirmation and the balance\<close>

lemma confirm_accounts:
  "confirm u pk db = Inr (r, db') \<Longrightarrow> accounts db' = accounts db \<and> tx_is_confirmed r"
  by (auto simp: confirm_def save_is_confirmed_def Let_def split: sum.splits)

lemma process_installment_payment_accounts:
  "process_installment_payment cp n db = Inr (r, cp', db') \<Longrightarrow>
     accounts db' = accounts db \<and> tx_is_confirmed r"
  by (auto simp: process_installment_payment_def save_is_confirmed_def
      save_purchase_progress_def Let_def split: if_splits option.splits)

text \<open>
  C4. The code at three inputs. Confirming the unconfirmed installment of 100 on the card
  account, through the confirm action or through the payment of the installment, sets the
  flag and leaves the balance of the account at 0: no balance effect is applied. Creating
  an unconfirmed expense of 200 through the serializer takes the balance of the savings
  account from 500 to 300 at once.
\<close>

theorem confirmation_skips_balance:
  "(\<exists>r db'. confirm 1 50 installment_ledger = Inr (r, db') \<and> tx_is_confirmed r \<and>
       tx_type r = Expense \<and> tx_amount r = 100 \<and> tx_account r = 12 \<and>
       map_option balance (accounts installment_ledger 12) = Some 0 \<and>
       map_option balance (accounts db' 12) = Some 0) \<and>
   (\<exists>r cp' db'. process_installment_payment sample_purchase 1 installment_ledger
         = Inr (r, cp', db') \<and> tx_is_confirmed r \<and> tx_amount r = 100 \<and>
       map_option balance (accounts db' 12) = Some 0) \<and>
   (\<exists>obj db'. transaction_create 1 pending_expense_200 test_ledger = Inr (obj, db') \<and>
       \<not> tx_is_confirmed (o_row obj) \<and>
       map_option balance (accounts test_ledger 11) = Some 500 \<and>
       map_option balance (accounts db' 11) = Some 300)"
  by (simp add: confirm_def get_object_def save_is_confirmed_def installment_ledger_def
      test_ledger_def pending_installment_def sample_purchase_def card_account_def
      savings_account_def process_installment_payment_def save_purchase_progress_def
      transaction_create_def model_create_def insert_transaction_def
      update_account_balance_def save_balance_def pending_expense_200_def Let_def)

section \<open>Negative balances\<close>

text \<open>
  C5. The code at one input. The savings account holds 500 and its type forbids a negative
  balance. The validated expense of 650 is posted all the same: the stored balance becomes
  -150, a state that \<open>Account.clean\<close> rejects.
\<close>

theorem expense_overdraws_account:
  "transaction_validate 1 expense_650 = Inr expense_650 \<and>
   accounts test_ledger 11 = Some savings_account \<and>
   balance savings_account = 500 \<and>
   \<not> allows_negative_balance (acc_type savings_account) \<and>
   (\<exists>obj db' a. transaction_create 1 expense_650 test_ledger = Inr (obj, db') \<and>
      accounts db' 11 = Some a \<and> balance a = - 150 \<and>
      \<not> allows_negative_balance (acc_type a) \<and>
      clean a = Inl (ValidationError
                       ''El tipo de cuenta Cuenta Bancaria no permite balance negativo''))"
  by (simp add: transaction_validate_def expense_650_def test_ledger_def savings_account_def
      expense_cat_def bank_type_def transaction_create_def model_create_def
      insert_transaction_def update_account_balance_def save_balance_def clean_def Let_def)

section \<open>Updating a transfer\<close>








section \<open>Executing auto-debits\<close>

lemma date_le_antisym: "date_le a b \<Longrightarrow> date_le b a \<Longrightarrow> a = b"
  by (auto simp: date_le_def intro: date.expand)

lemma date_lt_not_le: "date_lt e today \<Longrightarrow> \<not> date_le today e"
  using date_le_antisym by (auto simp: date_lt_def)

lemma execute_insufficient_funds:
  assumes "can_execute (fst now) ad"
    and "accounts db (ad_account ad) = Some a"
    and "balance a < ad_amount ad"
    and "\<not> allows_negative_balance (acc_type a)"
  shows "execute_auto_debit now ad db =
           (Inl (ValueError ''Saldo insuficiente para ejecutar el debito''),
            ad\<lparr>ad_failed_attempts := ad_failed_attempts ad + 2\<rparr>, db)"
  using assms
  by (simp add: execute_auto_debit_def atomic_def execute_auto_debit_body_def
      execute_try_def Let_def)

lemma insert_transaction_facts:
  assumes "insert_transaction r db = (t, db1)"
  shows "t = r\<lparr>tx_id := next_id db\<rparr>"
    and "transactions db1 = transactions db @ [t]"
    and "accounts db1 = accounts db"
    and "auto_debits db1 = auto_debits db"
    and "categories db1 = categories db"
    and "card_purchases db1 = card_purchases db"
    and "next_id db1 = next_id db + 1"
  using assms by (auto simp: insert_transaction_def Let_def)

lemma save_balance_facts:
  assumes "accounts db (acc_id a) = Some r"
  shows "\<exists>db'. save_balance a db = Inr db' \<and>
           accounts db' = (accounts db)(acc_id a \<mapsto> r\<lparr>balance := balance a\<rparr>) \<and>
           transactions db' = transactions db \<and> auto_debits db' = auto_debits db"
  using assms by (simp add: save_balance_def)

text \<open>
  With sufficient funds, or on an account type that allows a
  negative balance, the execution posts one confirmed expense, debits the account, and
  sets the bookkeeping fields, the next execution being the one that
  \<open>calculate_next_execution\<close> gives for the new \<open>last_execution\<close>.
\<close>

lemma execute_sufficient_funds:
  assumes c: "can_execute (fst now) ad"
    and a: "accounts db (ad_account ad) = Some a"
    and k: "acc_id a = ad_account ad"
    and f: "ad_amount ad \<le> balance a \<or> allows_negative_balance (acc_type a)"
    and n: "calculate_next_execution
           (ad\<lparr>ad_last_execution := Some (fst now),
               ad_execution_count := ad_execution_count ad + 1,
               ad_failed_attempts := 0\<rparr>) = Inr nx"
  shows "\<exists>t ad' db'. execute_auto_debit now ad db = (Inr t, ad', db') \<and>
           transactions db' = transactions db @ [t] \<and>
           tx_is_confirmed t \<and> tx_type t = Expense \<and> tx_amount t = ad_amount ad \<and>
           tx_origin t = AutoDebitOrigin \<and> tx_account t = ad_account ad \<and>
           ad_last_execution ad' = Some (fst now) \<and>
           ad_execution_count ad' = ad_execution_count ad + 1 \<and>
           ad_failed_attempts ad' = 0 \<and>
           ad_next_execution ad' = nx \<and>
           auto_debits db' = auto_debits (save_execution ad' db) \<and>
           accounts db' = (accounts db)(ad_account ad \<mapsto>
              a\<lparr>balance := balance a - ad_amount ad\<rparr>)"
proof -
  have nf: "(balance a < ad_amount ad \<and> \<not> allows_negative_balance (acc_type a)) = False"
    using f by auto
  obtain t db1 where it: "insert_transaction
       \<lparr>tx_id = 0, tx_user = ad_user ad, tx_account = ad_account ad,
        tx_category = ad_category ad, tx_target_account = None,
        tx_date = now, tx_amount = ad_amount ad,
        tx_currency = ad_currency ad, tx_type = Expense,
        tx_description = ''Debito automatico: '' @ ad_name ad,
        tx_origin = AutoDebitOrigin, tx_reference_number = [],
        tx_metadata = [], tx_card_purchase = None,
        tx_auto_debit = Some (ad_id ad), tx_is_confirmed = True\<rparr> db = (t, db1)"
    by (metis surj_pair)
  note tf = insert_transaction_facts[OF it]
  have "accounts db1 (acc_id (a\<lparr>balance := balance a - ad_amount ad\<rparr>)) = Some a"
    using a k tf(3) by simp
  from save_balance_facts[OF this] obtain db2 where
    sb: "save_balance (a\<lparr>balance := balance a - ad_amount ad\<rparr>) db1 = Inr db2"
    and d2: "accounts db2 = (accounts db1)(ad_account ad \<mapsto> a\<lparr>balance := balance a - ad_amount ad\<rparr>)"
      "transactions db2 = transactions db1" "auto_debits db2 = auto_debits db1"
    using k by auto
  define ad2 where "ad2 = ad\<lparr>ad_last_execution := Some (fst now),
               ad_execution_count := ad_execution_count ad + 1,
               ad_failed_attempts := 0, ad_next_execution := nx\<rparr>"
  have tr: "execute_try now ad db = (Inr t, ad2, save_execution ad2 db2)"
    unfolding execute_try_def using a it sb n nf by (simp add: ad2_def Let_def del: not_less)
  have ex: "execute_auto_debit now ad db = (Inr t, ad2, save_execution ad2 db2)"
    using c tr by (simp add: execute_auto_debit_def atomic_def execute_auto_debit_body_def)
  have "transactions (save_execution ad2 db2) = transactions db @ [t]"
    "accounts (save_execution ad2 db2) = (accounts db)(ad_account ad \<mapsto>
              a\<lparr>balance := balance a - ad_amount ad\<rparr>)"
    "auto_debits (save_execution ad2 db2) = auto_debits (save_execution ad2 db)"
    using d2 tf(2,3,4) by (simp_all add: save_execution_def)
  moreover have "tx_is_confirmed t" "tx_type t = Expense" "tx_amount t = ad_amount ad"
    "tx_origin t = AutoDebitOrigin" "tx_account t = ad_account ad"
    using tf(1) by simp_all
  moreover have "ad_last_execution ad2 = Some (fst now)"
    "ad_execution_count ad2 = ad_execution_count ad + 1"
    "ad_failed_attempts ad2 = 0" "ad_next_execution ad2 = nx"
    by (simp_all add: ad2_def)
  ultimately show ?thesis using ex by blast
qed

text \<open>
  C2. The code at one input: the rent of 1000 is due and active, its account holds 500 and
  forbids a negative balance, and the debit has no failed attempt so far. The execution
  raises. The instance in memory then counts 2 failed attempts, since the \<open>except\<close> clause
  counts the attempt that the \<open>try\<close> block had counted already, and the store is the one
  before the call, since the atomic block rolls both saves back: the stored count is
  still 0. No transaction is posted and \<open>next_execution\<close> is unchanged. The batch pass
  over the rent and a subscription of 200 with sufficient funds reports one execution and
  one failure; afterwards the stored count of the rent is 0 as before, and the
  subscription has one transaction of 200, a count reset from 3 to 0 and its next
  execution one month after today.
\<close>

theorem insufficient_funds_attempt_count:
  "can_execute (fst noon) rent_debit \<and>
   map_option balance (accounts debit_ledger (ad_account rent_debit)) = Some 500 \<and>
   ad_amount rent_debit = 1000 \<and>
   ad_failed_attempts rent_debit = 0 \<and>
   fst (execute_auto_debit noon rent_debit debit_ledger)
     = Inl (ValueError ''Saldo insuficiente para ejecutar el debito'') \<and>
   ad_failed_attempts (fst (snd (execute_auto_debit noon rent_debit debit_ledger))) = 2 \<and>
   snd (snd (execute_auto_debit noon rent_debit debit_ledger)) = debit_ledger \<and>
   map ad_failed_attempts (auto_debits debit_ledger) = [0, 3] \<and>
   fst (execute_pending_debits noon debit_ledger)
     = \<lparr>executed = 1, failed = 1,
        errors = [(''Alquiler'', ''Saldo insuficiente para ejecutar el debito'')]\<rparr> \<and>
   map ad_failed_attempts (auto_debits (snd (execute_pending_debits noon debit_ledger)))
     = [0, 0] \<and>
   map ad_next_execution (auto_debits (snd (execute_pending_debits noon debit_ledger)))
     = [Date 2024 3 15, Date 2024 4 15] \<and>
   map tx_amount (transactions (snd (execute_pending_debits noon debit_ledger))) = [200]"
proof -
  have c: "can_execute (fst noon) rent_debit"
    by (simp add: can_execute_def rent_debit_def noon_def date_le_def)
  have a: "accounts debit_ledger (ad_account rent_debit) = Some savings_account"
    by (simp add: debit_ledger_def test_ledger_def rent_debit_def)
  have b: "balance savings_account < ad_amount rent_debit"
    "\<not> allows_negative_balance (acc_type savings_account)"
    by (simp_all add: savings_account_def rent_debit_def bank_type_def)
  have e: "execute_auto_debit noon rent_debit debit_ledger =
           (Inl (ValueError ''Saldo insuficiente para ejecutar el debito''),
            rent_debit\<lparr>ad_failed_attempts := ad_failed_attempts rent_debit + 2\<rparr>, debit_ledger)"
    by (rule execute_insufficient_funds[OF c a b])
  have p: "fst (execute_pending_debits noon debit_ledger)
     = \<lparr>executed = 1, failed = 1,
        errors = [(''Alquiler'', ''Saldo insuficiente para ejecutar el debito'')]\<rparr> \<and>
   map ad_failed_attempts (auto_debits (snd (execute_pending_debits noon debit_ledger)))
     = [0, 0] \<and>
   map ad_next_execution (auto_debits (snd (execute_pending_debits noon debit_ledger)))
     = [Date 2024 3 15, Date 2024 4 15] \<and>
   map tx_amount (transactions (snd (execute_pending_debits noon debit_ledger))) = [200]"
    by (simp add: execute_pending_debits_def pending_debits_def execute_one_def
        execute_auto_debit_def atomic_def execute_auto_debit_body_def execute_try_def
        can_execute_def calculate_next_execution_def add_months_def days_in_month_def
        insert_transaction_def save_balance_def save_execution_def save_failed_attempts_def
        debit_ledger_def test_ledger_def rent_debit_def gym_debit_def noon_def
        test_account_def savings_account_def bank_type_def date_le_def Let_def)
  show ?thesis
    unfolding e using c a p
    by (simp add: rent_debit_def gym_debit_def debit_ledger_def savings_account_def)
qed

text \<open>
  C10 as amended. An active auto-debit of the table whose \<open>next_execution\<close> is today or
  earlier and whose end date is before today is selected by the batch pass; executing it
  raises at the guard, so the pass counts it as failed with the error of the guard, and
  the store is unchanged by the item: no transaction is posted, and \<open>failed_attempts\<close>
  keeps its value, in the store and on the instance.
\<close>

theorem expired_debit_counted_failed:
  assumes "ad \<in> set (auto_debits db)"
    and "ad_status ad = Active"
    and "date_le (ad_next_execution ad) today"
    and "ad_end_date ad = Some e"
    and "date_lt e today"
  shows "ad \<in> set (pending_debits today db) \<and>
         execute_auto_debit (today, s) ad db1
           = (Inl (ValueError ''El debito no puede ejecutarse''), ad, db1) \<and>
         execute_one (today, s) (res, db1) ad
           = (res\<lparr>failed := failed res + 1,
                  errors := errors res @ [(ad_name ad, ''El debito no puede ejecutarse'')]\<rparr>,
              db1)"
proof -
  have nc: "\<not> can_execute today ad"
    using assms(4) date_lt_not_le[OF assms(5)] by (simp add: can_execute_def)
  have ex: "execute_auto_debit (today, s) ad db1
           = (Inl (ValueError ''El debito no puede ejecutarse''), ad, db1)"
    using nc by (simp add: execute_auto_debit_def atomic_def execute_auto_debit_body_def)
  have "ad \<in> set (pending_debits today db)"
    using assms(1,2,3) by (simp add: pending_debits_def)
  then show ?thesis using ex by (simp add: execute_one_def)
qed

theorem expired_debit_counted_failed_witness:
  "expired_debit \<in> set (auto_debits expired_ledger) \<and>
   ad_status expired_debit = Active \<and>
   date_le (ad_next_execution expired_debit) (Date 2024 3 15) \<and>
   ad_end_date expired_debit = Some (Date 2024 2 28) \<and>
   date_lt (Date 2024 2 28) (Date 2024 3 15) \<and>
   expired_debit \<in> set (pending_debits (Date 2024 3 15) expired_ledger) \<and>
   execute_one (Date 2024 3 15, 43200) (\<lparr>executed = 0, failed = 0, errors = []\<rparr>, expired_ledger)
       expired_debit
     = (\<lparr>executed = 0, failed = 1, errors = [(''Seguro'', ''El debito no puede ejecutarse'')]\<rparr>,
        expired_ledger)"
proof -
  have h: "expired_debit \<in> set (auto_debits expired_ledger)"
    "ad_status expired_debit = Active"
    "date_le (ad_next_execution expired_debit) (Date 2024 3 15)"
    "ad_end_date expired_debit = Some (Date 2024 2 28)"
    "date_lt (Date 2024 2 28) (Date 2024 3 15)"
    by (simp_all add: expired_ledger_def expired_debit_def date_le_def date_lt_def)
  from expired_debit_counted_failed[OF h, of 43200 expired_ledger
      "\<lparr>executed = 0, failed = 0, errors = []\<rparr>"] h
  show ?thesis by (simp add: expired_debit_def)
qed

text \<open>
  C10 as stated fails: the batch pass over a store with the expired insurance debit
  reports one failure and leaves its \<open>failed_attempts\<close> at 0.
\<close>

theorem expired_debit_attempts_unchanged:
  "expired_debit \<in> set (auto_debits expired_ledger) \<and>
   ad_status expired_debit = Active \<and>
   date_le (ad_next_execution expired_debit) (fst noon) \<and>
   ad_end_date expired_debit = Some (Date 2024 2 28) \<and>
   date_lt (Date 2024 2 28) (fst noon) \<and>
   ad_failed_attempts expired_debit = 0 \<and>
   fst (execute_pending_debits noon expired_ledger)
     = \<lparr>executed = 0, failed = 1, errors = [(''Seguro'', ''El debito no puede ejecutarse'')]\<rparr> \<and>
   map ad_failed_attempts (auto_debits (snd (execute_pending_debits noon expired_ledger))) = [0] \<and>
   map ad_failed_attempts (auto_debits (snd (execute_pending_debits noon expired_ledger)))
     \<noteq> [ad_failed_attempts expired_debit + 1]"
  by (simp add: execute_pending_debits_def pending_debits_def execute_one_def
      execute_auto_debit_def atomic_def execute_auto_debit_body_def can_execute_def
      expired_ledger_def expired_debit_def noon_def date_le_def date_lt_def)

section \<open>Card purchases\<close>









section \<open>Conversion and rate resolution\<close>

text \<open>
  C7. The code at the input of its own test \<open>test_decimal_precision\<close>: converting
  123.456789 from ARS to ARS returns 123.456789 as it came, since the same-currency
  branch returns before any rounding; rounded half-up to the two decimals of ARS it would
  be 123.46, which is what the test expects.
\<close>

theorem same_currency_not_rounded:
  "get_currency_decimal_places ''ARS'' store_empty = 2 \<and>
   convert_amount svc_down (123456789 / 1000000) ''ARS'' ''ARS'' ''general'' None store_empty
     = (Inr (123456789 / 1000000), store_empty) \<and>
   quantize_half_up (123456789 / 1000000) 2 = 12346 / 100 \<and>
   fst (convert_amount svc_down (123456789 / 1000000) ''ARS'' ''ARS'' ''general'' None store_empty)
     \<noteq> Inr (quantize_half_up (123456789 / 1000000)
              (get_currency_decimal_places ''ARS'' store_empty))"
proof -
  have f: "\<lfloor>(123461789::rat) / 10000\<rfloor> = 12346"
    by (rule floor_unique) simp_all
  show ?thesis
    by (simp add: convert_amount_def quantize_half_up_def get_currency_decimal_places_def
        store_empty_def ars_def usd_def f)
qed




















end
